theory Spec2Isabelle
  imports Complex_Main
begin

section \<open>Python values and dictionaries\<close>

text \<open>
  The agents of the TripKit pipeline are Python functions over dictionaries. A value
  stored in a state dictionary is \<open>None\<close>, a bool, an int, a string or a list; a
  dictionary is a partial map from string keys. \<open>dict_get\<close> is \<open>d.get(k)\<close> (which
  yields \<open>None\<close> for a missing key) and \<open>truthy\<close> is Python's truth test.
\<close>

datatype pyval = PNone | PBool bool | PInt int | PStr string | PList "pyval list"

datatype py_error = KeyError string | TypeError string

type_synonym pydict = "string \<rightharpoonup> pyval"

fun truthy :: "pyval \<Rightarrow> bool" where
  "truthy PNone = False"
| "truthy (PBool b) = b"
| "truthy (PInt i) = (i \<noteq> 0)"
| "truthy (PStr s) = (s \<noteq> [])"
| "truthy (PList xs) = (xs \<noteq> [])"

definition dict_get :: "pydict \<Rightarrow> string \<Rightarrow> pyval" where
  "dict_get d k = (case d k of None \<Rightarrow> PNone | Some v \<Rightarrow> v)"

section \<open>Orchestrator: \<open>route_to_agent\<close>\<close>

text \<open>
  \<^verbatim>\<open>routing_map = {"init": "conversation_agent", ..., "qa": "complete"}\<close>
  \<^verbatim>\<open>return routing_map.get(step, "complete")\<close>
  with \<open>step = state["current_step"]\<close>. Indexing a missing key raises \<open>KeyError\<close>;
  a list cannot be hashed, so looking it up raises \<open>TypeError\<close>; any other value that
  is not one of the six keys takes the default of \<open>get\<close>.
\<close>

definition routing_map :: "string \<rightharpoonup> string" where
  "routing_map = map_of
     [(''init'', ''conversation_agent''),
      (''conversation'', ''recommendation_agent''),
      (''recommendation'', ''image_generation_agent''),
      (''image_generation'', ''content_enrichment_agent''),
      (''enrichment'', ''qa_agent''),
      (''qa'', ''complete'')]"

definition route_to_agent :: "pydict \<Rightarrow> py_error + string" where
  "route_to_agent state =
     (case state ''current_step'' of
        None \<Rightarrow> Inl (KeyError ''current_step'')
      | Some (PStr step) \<Rightarrow>
          Inr (case routing_map step of Some agent \<Rightarrow> agent | None \<Rightarrow> ''complete'')
      | Some (PList xs) \<Rightarrow> Inl (TypeError ''unhashable type: list'')
      | Some other \<Rightarrow> Inr ''complete'')"

section \<open>Workflow graph: \<open>build_multi_agent_workflow\<close>\<close>

text \<open>
  The graph is built from five nodes, an entry point, three plain edges and two
  conditional edges whose target is computed from the state by a lambda.
  \<open>END\<close> is LangGraph's end marker.
\<close>

definition END :: string where
  "END = ''__end__''"

record workflow =
  nodes :: "string list"
  entry_point :: string
  edges :: "(string \<times> string) list"
  conditional_edges :: "(string \<times> (pydict \<Rightarrow> string)) list"

definition build_multi_agent_workflow :: workflow where
  "build_multi_agent_workflow =
     \<lparr> nodes = [''conversation'', ''recommendation'', ''image_generation'',
                ''content_enrichment'', ''qa''],
       entry_point = ''conversation'',
       edges = [(''recommendation'', ''image_generation''),
                (''image_generation'', ''content_enrichment''),
                (''content_enrichment'', ''qa'')],
       conditional_edges =
         [(''conversation'',
             \<lambda>state. if truthy (dict_get state ''is_complete'')
                     then ''recommendation'' else ''conversation''),
          (''qa'',
             \<lambda>state. if truthy (dict_get state ''is_approved'')
                     then END else ''content_enrichment'')] \<rparr>"

text \<open>
  One transition of the compiled graph: after \<open>node\<close> has run and left \<open>state\<close>, the
  conditional edge of the node decides, otherwise its plain edge; \<open>None\<close> when the node
  has no outgoing edge.
\<close>

definition next_node :: "workflow \<Rightarrow> string \<Rightarrow> pydict \<Rightarrow> string option" where
  "next_node g node state =
     (case map_of (conditional_edges g) node of
        Some f \<Rightarrow> Some (f state)
      | None \<Rightarrow> map_of (edges g) node)"

text \<open>
  A run of the graph from \<open>node\<close>: the list holds the state left by each node that runs,
  in order.
\<close>

fun run_workflow :: "workflow \<Rightarrow> string \<Rightarrow> pydict list \<Rightarrow> string option" where
  "run_workflow g node [] = Some node"
| "run_workflow g node (s # ss) =
     (case next_node g node s of None \<Rightarrow> None | Some node' \<Rightarrow> run_workflow g node' ss)"

section \<open>String helpers\<close>

text \<open>
  \<open>startswith s p\<close> is \<open>s.startswith(p)\<close>, \<open>contains s p\<close> is \<open>p in s\<close>, \<open>lower\<close> is
  \<open>str.lower()\<close> on ASCII text, \<open>join\<close> is \<open>sep.join(xs)\<close>, and \<open>slice_to xs c\<close> is
  the slice \<open>xs[:c]\<close>, where a negative \<open>c\<close> counts from the end.
\<close>

definition startswith :: "string \<Rightarrow> string \<Rightarrow> bool" where
  "startswith s p = (take (length p) s = p)"

fun contains :: "string \<Rightarrow> string \<Rightarrow> bool" where
  "contains [] p = (p = [])"
| "contains (c # cs) p = (startswith (c # cs) p \<or> contains cs p)"

definition lower_char :: "char \<Rightarrow> char" where
  "lower_char c =
     (case map_of (zip ''ABCDEFGHIJKLMNOPQRSTUVWXYZ'' ''abcdefghijklmnopqrstuvwxyz'') c of
        Some l \<Rightarrow> l
      | None \<Rightarrow> c)"

definition lower :: "string \<Rightarrow> string" where
  "lower s = map lower_char s"

fun join :: "string \<Rightarrow> string list \<Rightarrow> string" where
  "join sep [] = []"
| "join sep [x] = x"
| "join sep (x # y # ys) = x @ sep @ join sep (y # ys)"

definition slice_to :: "'a list \<Rightarrow> int \<Rightarrow> 'a list" where
  "slice_to xs c = (if c < 0 then take (nat (int (length xs) + c)) xs else take (nat c) xs)"

section \<open>Recommendation agent\<close>

text \<open>
  A destination carries the fields the recommendation code and the diversity rule read.
  The scoring loop of \<open>generate_recommendations\<close> builds, for each compatible
  destination, the dictionary \<^verbatim>\<open>{**dest, "match_score": ..., "match_reason": ...}\<close>:
  the destination extended by two fields. Scores are Python floats; they are modelled
  as real numbers, so rounding is not part of the model.
\<close>

record destination =
  dest_id :: string
  locality :: string
  country :: string
  photography_score :: int

record scored_destination = destination +
  match_score :: real
  match_reason :: string

text \<open>
  The capabilities the function calls and the sources do not define: the embedding of a
  profile, the vector search, the compatibility filter, the vibe match and the
  generated reason.
\<close>

record recommendation_env =
  get_vibe_embedding :: "pydict \<Rightarrow> real list"
  vector_search :: "real list \<Rightarrow> nat \<Rightarrow> destination list"
  filter_by_vibe_compatibility :: "destination list \<Rightarrow> pydict \<Rightarrow> destination list"
  calculate_vibe_match :: "destination \<Rightarrow> pydict \<Rightarrow> real"
  generate_match_reason :: "destination \<Rightarrow> pydict \<Rightarrow> string"

text \<open>
  \<^verbatim>\<open>for dest in compatible_dests:\<close>
  \<^verbatim>\<open>    vibe_score = calculate_vibe_match(dest, vibe_profile)\<close>
  \<^verbatim>\<open>    photo_score = dest.photography_score / 10\<close>
  \<^verbatim>\<open>    final_score = (vibe_score * 0.7) + (photo_score * 0.3)\<close>
  \<^verbatim>\<open>    scored_dests.append({**dest, "match_score": final_score, ...})\<close>
\<close>

fun score_destinations ::
  "recommendation_env \<Rightarrow> pydict \<Rightarrow> destination list \<Rightarrow> scored_destination list" where
  "score_destinations env vibe_profile [] = []"
| "score_destinations env vibe_profile (dest # rest) =
     (let vibe_score = calculate_vibe_match env dest vibe_profile;
          photo_score = real_of_int (photography_score dest) / 10;
          final_score = (vibe_score * 0.7) + (photo_score * 0.3)
      in destination.extend dest
           (scored_destination.fields final_score (generate_match_reason env dest vibe_profile))
         # score_destinations env vibe_profile rest)"






text \<open>
  Example data: a pool of four destinations in two countries, so that the diversity
  rule alone selects two of them, and an environment over that pool.
\<close>

definition demo_pool :: "destination list" where
  "demo_pool =
     [\<lparr> dest_id = ''kyoto'', locality = ''Kyoto'', country = ''Japan'', photography_score = 9 \<rparr>,
      \<lparr> dest_id = ''porto'', locality = ''Porto'', country = ''Portugal'', photography_score = 8 \<rparr>,
      \<lparr> dest_id = ''lisbon'', locality = ''Lisbon'', country = ''Portugal'', photography_score = 10 \<rparr>,
      \<lparr> dest_id = ''osaka'', locality = ''Osaka'', country = ''Japan'', photography_score = 6 \<rparr>]"

definition demo_env :: recommendation_env where
  "demo_env =
     \<lparr> get_vibe_embedding = (\<lambda>profile. [1, 0]),
       vector_search = (\<lambda>embedding top_k. take top_k demo_pool),
       filter_by_vibe_compatibility = (\<lambda>candidates profile. candidates),
       calculate_vibe_match =
         (\<lambda>dest profile. if country dest = ''Portugal'' then 9 / 10 else 1 / 2),
       generate_match_reason = (\<lambda>dest profile. ''matches the profile'') \<rparr>"

definition demo_profile :: pydict where
  "demo_profile = [''mood'' \<mapsto> PStr ''romantic'', ''aesthetic'' \<mapsto> PStr ''vintage'']"




section \<open>Image generation agent: \<open>generate_with_retry\<close>\<close>

text \<open>
  What one call of \<open>openai_client.images.generate\<close> does: it returns a response (the
  url and the revised prompt of \<open>response.data[0]\<close>) or raises
  \<open>openai.BadRequestError\<close> with a message, \<open>openai.RateLimitError\<close>, or some other
  exception. The service is a parameter: a function of the attempt index and of the
  prompt sent.
\<close>

datatype api_response =
    ImageResponse string string
  | BadRequestError string
  | RateLimitError
  | OtherException string

text \<open>
  The effects of a run, in order: the calls of the service (attempt index and prompt),
  the calls of \<open>asyncio.sleep\<close> (seconds) and the calls of \<open>logger.error\<close> (the attempt
  number printed, \<open>attempt + 1\<close>, and the exception text).
\<close>

datatype event = ApiCall nat string | Sleep nat | LogError nat string

text \<open>
  The function returns \<^verbatim>\<open>{"url", "revised_prompt", "attempts", "success": True}\<close> or
  \<^verbatim>\<open>{"success": False, "error": "Max retries exceeded"}\<close>, or an exception escapes
  from it (\<open>raise\<close>).
\<close>

datatype generation_result =
    Generated string string nat
  | NotGenerated string

datatype raised = RaisedBadRequest string | RaisedOther string

fun success :: "generation_result \<Rightarrow> bool" where
  "success (Generated url revised_prompt attempts) = True"
| "success (NotGenerated err) = False"

definition after ::
  "event list \<Rightarrow> (raised + generation_result) \<times> event list
     \<Rightarrow> (raised + generation_result) \<times> event list" where
  "after evs r = (fst r, evs @ snd r)"

text \<open>
  The body of \<^verbatim>\<open>for attempt in range(max_attempts)\<close>, from \<open>attempt\<close> on, with the
  current \<open>prompt\<close>; \<open>sanitize_prompt\<close> is not defined in the sources and is a
  parameter. The handlers are tried in the order of the source: \<open>BadRequestError\<close>
  (sanitize and \<open>continue\<close> when the lower-cased text holds \<open>content_policy\<close>, else
  \<open>raise\<close>), \<open>RateLimitError\<close> (sleep \<open>2 ** attempt\<close> and \<open>continue\<close>), any other
  \<open>Exception\<close> (log, and \<open>raise\<close> only when \<open>attempt == max_attempts - 1\<close>). After the
  loop comes the failure dictionary.
\<close>

function generate_loop ::
  "(nat \<Rightarrow> string \<Rightarrow> api_response) \<Rightarrow> (string \<Rightarrow> string) \<Rightarrow> nat \<Rightarrow> nat \<Rightarrow> string
     \<Rightarrow> (raised + generation_result) \<times> event list" where
  "generate_loop api sanitize_prompt max_attempts attempt prompt =
     (if max_attempts \<le> attempt then (Inr (NotGenerated ''Max retries exceeded''), [])
      else
        (case api attempt prompt of
           ImageResponse url revised_prompt \<Rightarrow>
             (Inr (Generated url revised_prompt (attempt + 1)), [ApiCall attempt prompt])
         | BadRequestError e \<Rightarrow>
             if contains (lower e) ''content_policy''
             then after [ApiCall attempt prompt]
                    (generate_loop api sanitize_prompt max_attempts (attempt + 1)
                       (sanitize_prompt prompt))
             else (Inl (RaisedBadRequest e), [ApiCall attempt prompt])
         | RateLimitError \<Rightarrow>
             after [ApiCall attempt prompt, Sleep (2 ^ attempt)]
               (generate_loop api sanitize_prompt max_attempts (attempt + 1) prompt)
         | OtherException e \<Rightarrow>
             if attempt = max_attempts - 1
             then (Inl (RaisedOther e), [ApiCall attempt prompt, LogError (attempt + 1) e])
             else after [ApiCall attempt prompt, LogError (attempt + 1) e]
                    (generate_loop api sanitize_prompt max_attempts (attempt + 1) prompt)))"
  by pat_completeness auto
termination
  by (relation "measure (\<lambda>(api, sanitize_prompt, max_attempts, attempt, prompt).
                   max_attempts - attempt)") auto

declare generate_loop.simps [simp del]

definition generate_with_retry ::
  "(nat \<Rightarrow> string \<Rightarrow> api_response) \<Rightarrow> (string \<Rightarrow> string) \<Rightarrow> string \<Rightarrow> nat
     \<Rightarrow> (raised + generation_result) \<times> event list" where
  "generate_with_retry api sanitize_prompt prompt max_attempts =
     generate_loop api sanitize_prompt max_attempts 0 prompt"

text \<open>The default of the parameter: \<^verbatim>\<open>max_attempts: int = 3\<close>.\<close>

definition default_max_attempts :: nat where
  "default_max_attempts = 3"

text \<open>What a run left behind: its service calls, its sleeps and its logged failures.\<close>

fun api_calls :: "event list \<Rightarrow> (nat \<times> string) list" where
  "api_calls [] = []"
| "api_calls (ApiCall k p # evs) = (k, p) # api_calls evs"
| "api_calls (ev # evs) = api_calls evs"

fun sleeps :: "event list \<Rightarrow> nat list" where
  "sleeps [] = []"
| "sleeps (Sleep d # evs) = d # sleeps evs"
| "sleeps (ev # evs) = sleeps evs"

fun logged_failures :: "event list \<Rightarrow> (nat \<times> string) list" where
  "logged_failures [] = []"
| "logged_failures (LogError k e # evs) = (k, e) # logged_failures evs"
| "logged_failures (ev # evs) = logged_failures evs"

section \<open>Image generation agent: \<open>validate_image_quality\<close>\<close>

text \<open>
  \<open>requests.get\<close> followed by \<open>Image.open(...).size\<close> is a parameter: it gives the
  width and the height, or it raises (\<open>Inl\<close> with the exception text) and the
  \<open>except\<close> branch logs the failure and returns \<open>False\<close>. The result is the returned
  bool and the list of messages logged.
\<close>

definition validate_image_quality ::
  "(string \<Rightarrow> string + int \<times> int) \<Rightarrow> string \<Rightarrow> bool \<times> string list" where
  "validate_image_quality fetch_size image_url =
     (if image_url = [] \<or> \<not> startswith image_url ''https://'' then (False, [])
      else
        (case fetch_size image_url of
           Inr (width, height) \<Rightarrow>
             if width < 1024 \<or> height < 1024 then (False, []) else (True, [])
         | Inl e \<Rightarrow> (False, [''Image validation failed: '' @ e])))"

text \<open>
  Modelled from the spec: the step of the Image Generation stage that validates the
  asset of each attempt is not in the sources (\<open>generate_with_retry\<close> returns the first
  response as it is, and nothing in the sources calls \<open>validate_image_quality\<close>).
  Spec 4.4: "up to N attempts"; a result that fails the post-generation validation
  "is treated as a soft failure and retried within budget"; the output is "a
  GeneratedImage or a fatal error after exhausting retries". \<open>asset k\<close> is the asset
  reference the attempt with index \<open>k\<close> produces, \<open>remaining\<close> the attempts left in
  the budget; the result is the accepted asset with the number of attempts used, or
  \<open>None\<close> for the fatal error.
\<close>

fun validated_generation ::
  "(string \<Rightarrow> string + int \<times> int) \<Rightarrow> (nat \<Rightarrow> string) \<Rightarrow> nat \<Rightarrow> nat \<Rightarrow> (string \<times> nat) option" where
  "validated_generation fetch_size asset 0 attempt = None"
| "validated_generation fetch_size asset (Suc remaining) attempt =
     (if fst (validate_image_quality fetch_size (asset attempt))
      then Some (asset attempt, attempt + 1)
      else validated_generation fetch_size asset remaining (attempt + 1))"

text \<open>
  Scripted services for the examples: the answer of the image service as a function of
  the attempt index.
\<close>

definition rate_limited_twice :: "nat \<Rightarrow> string \<Rightarrow> api_response" where
  "rate_limited_twice k q =
     (if k < 2 then RateLimitError else ImageResponse ''https://img.example/1.png'' q)"

definition other_error_twice :: "nat \<Rightarrow> string \<Rightarrow> api_response" where
  "other_error_twice k q =
     (if k < 2 then OtherException ''connection reset''
      else ImageResponse ''https://img.example/1.png'' q)"

definition always_rate_limited :: "nat \<Rightarrow> string \<Rightarrow> api_response" where
  "always_rate_limited k q = RateLimitError"

definition mixed_service :: "nat \<Rightarrow> string \<Rightarrow> api_response" where
  "mixed_service k q =
     (if k = 0 then BadRequestError ''Content_Policy violation''
      else if k = 1 then RateLimitError
      else if k = 2 then OtherException ''connection reset''
      else if k = 3 then BadRequestError ''invalid size''
      else OtherException ''service unavailable'')"

text \<open>
  Example data: a size service that times out on the first asset, finds the second too
  small and the third large enough.
\<close>

definition demo_fetch :: "string \<Rightarrow> string + int \<times> int" where
  "demo_fetch u =
     (if u = ''https://img.example/2.png'' then Inr (1024, 1792)
      else if u = ''https://img.example/1.png'' then Inr (1792, 512)
      else Inl ''connection timed out'')"

definition demo_asset :: "nat \<Rightarrow> string" where
  "demo_asset k =
     (if k = 0 then ''https://img.example/0.png''
      else if k = 1 then ''https://img.example/1.png''
      else ''https://img.example/2.png'')"

section \<open>Content enrichment agent\<close>

text \<open>
  \<open>index d k\<close> is \<open>d[k]\<close>, which raises \<open>KeyError\<close> for a missing key, and
  \<open>get_default d k dflt\<close> is \<open>d.get(k, dflt)\<close>. In \<open>D.get(concept, D["filmlog"])\<close> the
  default is computed first, so the lookup of \<open>"filmlog"\<close> is a step that can raise.
  The returned dictionaries are lists of key and value, in the order of the source.
\<close>

definition index :: "(string \<rightharpoonup> 'v) \<Rightarrow> string \<Rightarrow> py_error + 'v" where
  "index d k = (case d k of None \<Rightarrow> Inl (KeyError k) | Some v \<Rightarrow> Inr v)"

definition get_default :: "(string \<rightharpoonup> 'v) \<Rightarrow> string \<Rightarrow> 'v \<Rightarrow> 'v" where
  "get_default d k dflt = (case d k of None \<Rightarrow> dflt | Some v \<Rightarrow> v)"

definition strs :: "string list \<Rightarrow> pyval" where
  "strs xs = PList (map PStr xs)"

record camera_config =
  primary :: string
  alternative :: "string list"
  reasoning :: string

definition CAMERA_DATABASE :: "string \<rightharpoonup> camera_config" where
  "CAMERA_DATABASE = map_of
     [(''flaneur'',
         \<lparr> primary = ''Leica M6'',
           alternative = [''Olympus Trip 35'', ''Contax T2''],
           reasoning = ''Compact, discreet cameras for urban wandering'' \<rparr>),
      (''filmlog'',
         \<lparr> primary = ''Canon AE-1'',
           alternative = [''Nikon FM2'', ''Pentax K1000''],
           reasoning = ''Reliable SLRs with manual controls for vintage aesthetic'' \<rparr>),
      (''midnight'',
         \<lparr> primary = ''Hasselblad 500C/M'',
           alternative = [''Mamiya RB67'', ''Pentax 67''],
           reasoning = ''Medium format for artistic, dreamlike quality'' \<rparr>)]"

text \<open>
  The helpers the enrichment functions call and the sources do not define. They are
  parameters, taken to return a value.
\<close>

record enrichment_env =
  get_rental_info :: "string \<Rightarrow> pyval"
  get_purchase_links :: "string \<Rightarrow> pyval"
  get_color_names :: "string list \<Rightarrow> pyval"
  generate_specific_items :: "string \<Rightarrow> string \<Rightarrow> string \<Rightarrow> pyval"
  get_avoid_items :: "string \<Rightarrow> pyval"
  generate_shopping_tips :: "string \<Rightarrow> pyval"
  generate_sourcing_info :: "string \<Rightarrow> pyval"
  generate_styling_tips :: "string \<Rightarrow> string \<Rightarrow> pyval"

definition recommend_camera ::
  "enrichment_env \<Rightarrow> string \<Rightarrow> string \<Rightarrow> py_error + (string \<times> pyval) list" where
  "recommend_camera env concept budget =
     (case index CAMERA_DATABASE ''filmlog'' of
        Inl err \<Rightarrow> Inl err
      | Inr dflt \<Rightarrow>
          (let config = get_default CAMERA_DATABASE concept dflt
           in Inr [(''model'', PStr (primary config)),
                   (''alternatives'', strs (alternative config)),
                   (''reasoning'', PStr (reasoning config)),
                   (''rental_info'', get_rental_info env (primary config)),
                   (''buy_links'', get_purchase_links env (primary config))]))"

definition base_palettes :: "string \<rightharpoonup> string list" where
  "base_palettes = map_of
     [(''flaneur'', [''#2C3E50'', ''#ECF0F1'', ''#34495E'', ''#BDC3C7'']),
      (''filmlog'', [''#F5E6D3'', ''#8B7355'', ''#A0826D'', ''#FFFFFF'']),
      (''midnight'', [''#191970'', ''#4B0082'', ''#2F4F4F'', ''#C0C0C0''])]"

record season_config =
  add_colors :: "string list"
  fabrics :: "string list"

definition seasonal_modifiers :: "string \<rightharpoonup> season_config" where
  "seasonal_modifiers = map_of
     [(''spring'', \<lparr> add_colors = [''pastel pink'', ''light green''],
                     fabrics = [''cotton'', ''linen''] \<rparr>),
      (''summer'', \<lparr> add_colors = [''white'', ''light blue''],
                     fabrics = [''linen'', ''breathable cotton''] \<rparr>),
      (''fall'', \<lparr> add_colors = [''burgundy'', ''mustard''],
                   fabrics = [''wool'', ''denim''] \<rparr>),
      (''winter'', \<lparr> add_colors = [''navy'', ''charcoal''],
                     fabrics = [''wool'', ''cashmere''] \<rparr>)]"

definition generate_outfit_suggestions ::
  "enrichment_env \<Rightarrow> string \<Rightarrow> string \<Rightarrow> string \<Rightarrow> string list option
     \<Rightarrow> py_error + (string \<times> pyval) list" where
  "generate_outfit_suggestions env concept season weather color_preferences =
     (case index base_palettes ''filmlog'' of
        Inl err \<Rightarrow> Inl err
      | Inr dflt_palette \<Rightarrow>
          (let palette = get_default base_palettes concept dflt_palette
           in case index seasonal_modifiers ''spring'' of
                Inl err \<Rightarrow> Inl err
              | Inr dflt_season \<Rightarrow>
                  (let season_config = get_default seasonal_modifiers season dflt_season;
                       items = generate_specific_items env concept season weather
                   in Inr [(''color_palette'', strs palette),
                           (''color_names'', get_color_names env palette),
                           (''seasonal_additions'', strs (add_colors season_config)),
                           (''recommended_fabrics'', strs (fabrics season_config)),
                           (''specific_items'', items),
                           (''avoid_items'', get_avoid_items env concept),
                           (''shopping_tips'', generate_shopping_tips env concept)])))"

text \<open>
  A prop is a dictionary with \<open>name\<close> and \<open>purpose\<close>, to which \<open>recommend_props\<close> adds
  \<open>where_to_find\<close> and \<open>styling_tips\<close>. \<open>PROPS_DATABASE\<close> is a module-level
  dictionary of lists, and \<open>recommend_props\<close> changes it: \<open>base_props\<close> is the very
  list stored in the database (under the concept, or under \<open>"filmlog"\<close> when the
  concept is no key), \<open>append\<close> extends that list, and the props enriched in the loop
  are the objects the stored list holds. So the function takes the database as it
  stands and returns the selection together with the database it leaves.
\<close>

record prop_dict =
  name :: string
  purpose :: string
  where_to_find :: "pyval option"
  styling_tips :: "pyval option"

definition new_prop :: "string \<Rightarrow> string \<Rightarrow> prop_dict" where
  "new_prop n p = \<lparr> name = n, purpose = p, where_to_find = None, styling_tips = None \<rparr>"

definition PROPS_DATABASE :: "string \<rightharpoonup> prop_dict list" where
  "PROPS_DATABASE = map_of
     [(''flaneur'',
         [new_prop ''Vintage book'' ''Literary wanderer aesthetic'',
          new_prop ''City map'' ''Navigation storytelling element'',
          new_prop ''Coffee in thermos'' ''Urban explorer vibe'']),
      (''filmlog'',
         [new_prop ''Vintage Polaroid camera'' ''Nostalgic layering'',
          new_prop ''Film photography book'' ''Artistic context'',
          new_prop ''Woven basket'' ''Vintage travel charm'']),
      (''midnight'',
         [new_prop ''Vintage pocket watch'' ''Time travel symbolism'',
          new_prop ''Leather-bound journal'' ''Artistic documentation'',
          new_prop ''Antique monocular'' ''Poetic observation tool''])]"

definition recommend_props ::
  "enrichment_env \<Rightarrow> (string \<rightharpoonup> prop_dict list) \<Rightarrow> string \<Rightarrow> string \<Rightarrow> int
     \<Rightarrow> py_error + prop_dict list \<times> (string \<rightharpoonup> prop_dict list)" where
  "recommend_props env db concept location_type count =
     (case index db ''filmlog'' of
        Inl err \<Rightarrow> Inl err
      | Inr dflt \<Rightarrow>
          (let key = (if db concept = None then ''filmlog'' else concept);
               base_props = get_default db concept dflt;
               base_props =
                 (if location_type = ''coastal''
                  then base_props @ [new_prop ''Seashell collection jar'' ''Coastal memory keeper'']
                  else if location_type = ''urban''
                  then base_props @ [new_prop ''Vintage metro ticket'' ''Urban exploration token'']
                  else base_props);
               selected =
                 map (\<lambda>prop. prop
                        \<lparr> where_to_find := Some (generate_sourcing_info env (name prop)),
                          styling_tips := Some (generate_styling_tips env (name prop) concept) \<rparr>)
                     (slice_to base_props count)
           in Inr (selected, db(key \<mapsto> selected @ drop (length selected) base_props))))"

definition demo_enrichment :: enrichment_env where
  "demo_enrichment =
     \<lparr> get_rental_info = (\<lambda>m. PStr (''rent '' @ m)),
       get_purchase_links = (\<lambda>m. PList [PStr (''https://shop.example/'' @ m)]),
       get_color_names = (\<lambda>palette. PList (map PStr palette)),
       generate_specific_items = (\<lambda>concept season weather. PList [PStr (concept @ '' coat'')]),
       get_avoid_items = (\<lambda>concept. PList []),
       generate_shopping_tips = (\<lambda>concept. PList []),
       generate_sourcing_info = (\<lambda>n. PStr (''flea market: '' @ n)),
       generate_styling_tips = (\<lambda>n concept. PStr (n @ '' for '' @ concept)) \<rparr>"

section \<open>Quality assurance agent\<close>

text \<open>
  Each checklist returns \<^verbatim>\<open>{"passed": all(checks.values()), "checks": checks,\<close>
  \<^verbatim>\<open>"quality_score": sum(checks.values()) / len(checks)}\<close>.
\<close>

record check_result =
  passed :: bool
  checks :: "(string \<times> bool) list"
  quality_score :: real

definition checklist_result :: "(string \<times> bool) list \<Rightarrow> check_result" where
  "checklist_result cs =
     \<lparr> passed = list_all snd cs,
       checks = cs,
       quality_score = real (length (filter snd cs)) / real (length cs) \<rparr>"

text \<open>
  A recommended destination as the checklist reads it. A field is \<open>None\<close> when the key
  is missing: \<open>d.get\<close> then gives its default, and \<open>d["id"]\<close> raises \<open>KeyError\<close>.
\<close>

record qa_destination =
  qa_id :: "string option"
  matchReason :: "string option"
  photographyScore :: "int option"
  safetyRating :: "int option"
  qa_description :: "string option"

fun ids_of :: "qa_destination list \<Rightarrow> py_error + string list" where
  "ids_of [] = Inr []"
| "ids_of (d # ds) =
     (case qa_id d of
        None \<Rightarrow> Inl (KeyError ''id'')
      | Some i \<Rightarrow> (case ids_of ds of Inl err \<Rightarrow> Inl err | Inr is \<Rightarrow> Inr (i # is)))"

definition validate_recommendations :: "qa_destination list \<Rightarrow> py_error + check_result" where
  "validate_recommendations destinations =
     (case ids_of destinations of
        Inl err \<Rightarrow> Inl err
      | Inr ids \<Rightarrow>
          Inr (checklist_result
            [(''count'', length destinations = 3),
             (''all_have_match_reason'',
                list_all (\<lambda>d. case matchReason d of None \<Rightarrow> False | Some r \<Rightarrow> r \<noteq> [])
                  destinations),
             (''photography_scores'',
                list_all (\<lambda>d. let v = (case photographyScore d of None \<Rightarrow> 0 | Some x \<Rightarrow> x)
                               in 1 \<le> v \<and> v \<le> 10) destinations),
             (''safety_ratings'',
                list_all (\<lambda>d. let v = (case safetyRating d of None \<Rightarrow> 0 | Some x \<Rightarrow> x)
                               in 1 \<le> v \<and> v \<le> 10) destinations),
             (''descriptions_length'',
                list_all (\<lambda>d. let n = length (case qa_description d of None \<Rightarrow> [] | Some x \<Rightarrow> x)
                               in 50 \<le> n \<and> n \<le> 300) destinations),
             (''no_duplicates'', card (set ids) = length destinations)]))"

record image_data =
  url :: "string option"
  prompt :: "string option"
  metadata :: "(string \<times> pyval) list option"
  generationTime :: "int option"

definition validate_image :: "image_data \<Rightarrow> check_result" where
  "validate_image d =
     checklist_result
       [(''url_valid'',
           (case url d of None \<Rightarrow> False | Some u \<Rightarrow> u \<noteq> [] \<and> startswith u ''https://'')),
        (''prompt_exists'', (case prompt d of None \<Rightarrow> False | Some p \<Rightarrow> p \<noteq> [])),
        (''metadata_complete'',
           list_all (\<lambda>key. key \<in> fst ` set (case metadata d of None \<Rightarrow> [] | Some m \<Rightarrow> m))
             [''model'', ''size'', ''quality'']),
        (''generation_time_acceptable'',
           (case generationTime d of None \<Rightarrow> 99999 | Some t \<Rightarrow> t) < 30000)]"

record styling_package =
  cameraModel :: "string option"
  filmStock :: "(string \<times> pyval) list option"
  cameraSettings :: "(string \<times> pyval) list option"
  outfitSuggestions :: "(string \<times> pyval) list option"
  props :: "pyval list option"
  bestAngles :: "pyval list option"

definition validate_styling_package :: "styling_package \<Rightarrow> check_result" where
  "validate_styling_package styling =
     checklist_result
       [(''camera_recommended'',
           (case cameraModel styling of None \<Rightarrow> False | Some m \<Rightarrow> m \<noteq> [])),
        (''film_stock_complete'',
           (case filmStock styling of
              None \<Rightarrow> False
            | Some fs \<Rightarrow> fs \<noteq> [] \<and> truthy (dict_get (map_of fs) ''name''))),
        (''camera_settings_valid'',
           list_all (\<lambda>key. key \<in> fst ` set (case cameraSettings styling of None \<Rightarrow> [] | Some m \<Rightarrow> m))
             [''aperture'', ''shutterSpeed'', ''iso'']),
        (''outfit_has_palette'',
           truthy (dict_get (map_of (case outfitSuggestions styling of None \<Rightarrow> [] | Some m \<Rightarrow> m))
                     ''colorPalette'')),
        (''props_count'',
           (let n = length (case props styling of None \<Rightarrow> [] | Some ps \<Rightarrow> ps)
            in 2 \<le> n \<and> n \<le> 4)),
        (''angles_count'',
           (let n = length (case bestAngles styling of None \<Rightarrow> [] | Some xs \<Rightarrow> xs)
            in 3 \<le> n \<and> n \<le> 5))]"

text \<open>
  \<open>validate_safety\<close>: the string and list values of the content are joined with a
  space and sent to the moderation service; the image check is a placeholder that
  leaves \<open>image_safe\<close> at \<open>True\<close>. The moderation service and the text Python prints
  for a list (\<open>str\<close> of a list) are parameters.
\<close>

record moderation_result =
  flagged :: bool
  categories :: "(string \<times> bool) list"

record safety_result =
  text_safe :: bool
  image_safe :: bool
  safety_categories :: "(string \<times> bool) list"
  approved :: bool

fun str_values :: "(pyval list \<Rightarrow> string) \<Rightarrow> (string \<times> pyval) list \<Rightarrow> string list" where
  "str_values str_of_list [] = []"
| "str_values str_of_list ((k, PStr s) # kvs) = s # str_values str_of_list kvs"
| "str_values str_of_list ((k, PList xs) # kvs) = str_of_list xs # str_values str_of_list kvs"
| "str_values str_of_list ((k, v) # kvs) = str_values str_of_list kvs"

definition validate_safety ::
  "(string \<Rightarrow> moderation_result) \<Rightarrow> (pyval list \<Rightarrow> string) \<Rightarrow> (string \<times> pyval) list
     \<Rightarrow> safety_result" where
  "validate_safety moderations_create str_of_list content =
     (let text_to_check = join '' '' (str_values str_of_list content);
          moderation_result = moderations_create text_to_check;
          image_safe = True;
          image_safe = (if truthy (dict_get (map_of content) ''generated_image_url'')
                        then True else image_safe)
      in \<lparr> text_safe = \<not> flagged moderation_result,
           image_safe = image_safe,
           safety_categories = categories moderation_result,
           approved = (\<not> flagged moderation_result \<and> image_safe) \<rparr>)"

text \<open>
  Modelled from the spec: the node of the QA agent that turns the checklist results
  and the safety result into the overall verdict is not in the sources. Spec 4.6:
  "any flagged category makes approved=false unconditionally regardless of checklist
  scores. Overall approved = all_checklists_passed AND moderation_clear."
\<close>

definition qa_approved :: "check_result list \<Rightarrow> safety_result \<Rightarrow> bool" where
  "qa_approved checklists safety = (list_all passed checklists \<and> approved safety)"

definition quality_assurance ::
  "(string \<Rightarrow> moderation_result) \<Rightarrow> (pyval list \<Rightarrow> string) \<Rightarrow> qa_destination list
     \<Rightarrow> image_data \<Rightarrow> styling_package \<Rightarrow> (string \<times> pyval) list \<Rightarrow> py_error + bool" where
  "quality_assurance moderations_create str_of_list destinations generated_image styling content =
     (case validate_recommendations destinations of
        Inl err \<Rightarrow> Inl err
      | Inr recommendations_result \<Rightarrow>
          Inr (qa_approved
                 [recommendations_result, validate_image generated_image,
                  validate_styling_package styling]
                 (validate_safety moderations_create str_of_list content)))"

text \<open>
  Example data: three recommendations, an image and a styling package that pass every
  check, and a moderation service that flags the content.
\<close>

definition demo_destination :: "string \<Rightarrow> qa_destination" where
  "demo_destination i =
     \<lparr> qa_id = Some i,
       matchReason = Some ''Quiet lanes and warm evening light suit a romantic mood'',
       photographyScore = Some 9,
       safetyRating = Some 8,
       qa_description =
         Some ''A hillside quarter of tiled houses, small cafes and river views at dusk'' \<rparr>"

definition demo_image :: image_data where
  "demo_image =
     \<lparr> url = Some ''https://img.example/2.png'',
       prompt = Some ''a quiet lane at dusk'',
       metadata = Some [(''model'', PStr ''dall-e-3''), (''size'', PStr ''1024x1024''),
                        (''quality'', PStr ''hd'')],
       generationTime = Some 12000 \<rparr>"

definition demo_styling :: styling_package where
  "demo_styling =
     \<lparr> cameraModel = Some ''Canon AE-1'',
       filmStock = Some [(''name'', PStr ''Kodak Portra 400'')],
       cameraSettings = Some [(''aperture'', PStr ''f/2.8''), (''shutterSpeed'', PStr ''1/250''),
                              (''iso'', PInt 400)],
       outfitSuggestions = Some [(''colorPalette'', PList [PStr ''#F5E6D3'', PStr ''#8B7355''])],
       props = Some [PStr ''Vintage Polaroid camera'', PStr ''Woven basket''],
       bestAngles = Some [PStr ''Rule of thirds'', PStr ''Leading lines'', PStr ''Silhouette''] \<rparr>"

definition demo_content :: "(string \<times> pyval) list" where
  "demo_content =
     [(''match_reason'', PStr ''warm evening light''),
      (''attempts'', PInt 1),
      (''generated_image_url'', PStr ''https://img.example/2.png'')]"

definition demo_moderation :: "string \<Rightarrow> moderation_result" where
  "demo_moderation t =
     (if contains t ''evening''
      then \<lparr> flagged = True, categories = [(''harassment'', True)] \<rparr>
      else \<lparr> flagged = False, categories = [] \<rparr>)"

section \<open>Routing is total; an unmapped step goes to complete\<close>

lemma route_to_agent_str:
  "state ''current_step'' = Some (PStr step) \<Longrightarrow>
   route_to_agent state =
     Inr (case routing_map step of Some agent \<Rightarrow> agent | None \<Rightarrow> ''complete'')"
  by (simp add: route_to_agent_def)

text \<open>
  C1 (as the code has it). For every state whose \<open>current_step\<close> is a string, whatever
  the other keys (the stage flags) hold, \<open>route_to_agent\<close> returns exactly one next
  agent and raises nothing; the result depends on \<open>current_step\<close> alone; and a step
  that is not a key of the routing table is routed to \<open>complete\<close>.
\<close>

theorem route_to_agent_total:
  assumes "state ''current_step'' = Some (PStr step)"
  shows "(\<exists>!agent. route_to_agent state = Inr agent)
       \<and> (k \<noteq> ''current_step'' \<longrightarrow> route_to_agent (state(k \<mapsto> v)) = route_to_agent state)
       \<and> (routing_map step = None \<longrightarrow> route_to_agent state = Inr ''complete'')"
proof -
  have one: "\<exists>!agent. route_to_agent state = Inr agent"
    using assms by (simp add: route_to_agent_str)
  have indep: "k \<noteq> ''current_step'' \<longrightarrow> route_to_agent (state(k \<mapsto> v)) = route_to_agent state"
    by (simp add: route_to_agent_def)
  have dflt: "routing_map step = None \<longrightarrow> route_to_agent state = Inr ''complete''"
    using assms by (simp add: route_to_agent_str)
  from one indep dflt show ?thesis by blast
qed

theorem route_to_agent_total_witness:
  "[''current_step'' \<mapsto> PStr ''failed''] ''current_step'' = Some (PStr ''failed'')
   \<and> ''fatal_error'' \<noteq> ''current_step''
   \<and> routing_map ''failed'' = None
   \<and> (\<exists>!agent. route_to_agent [''current_step'' \<mapsto> PStr ''failed''] = Inr agent)
   \<and> route_to_agent [''current_step'' \<mapsto> PStr ''failed'', ''fatal_error'' \<mapsto> PBool True]
       = route_to_agent [''current_step'' \<mapsto> PStr ''failed'']
   \<and> route_to_agent [''current_step'' \<mapsto> PStr ''failed''] = Inr ''complete''"
  using route_to_agent_total [of "[''current_step'' \<mapsto> PStr ''failed'']" "''failed''"
          "''fatal_error''" "PBool True"]
  by (simp add: routing_map_def)

text \<open>
  C1 (as stated) fails: \<open>complete\<close> is a declared value of \<open>current_step\<close> and is not
  a key of the routing table, yet routing it is no error: it is mapped to \<open>complete\<close>.
\<close>

theorem route_to_agent_unmapped_counterexample:
  "routing_map ''complete'' = None
   \<and> route_to_agent [''current_step'' \<mapsto> PStr ''complete'', ''fatal_error'' \<mapsto> PBool True]
       = Inr ''complete''"
  by (simp add: routing_map_def route_to_agent_def)

section \<open>The QA edge: rework without a bound\<close>

lemma qa_edge:
  "next_node build_multi_agent_workflow ''qa'' st =
     Some (if truthy (dict_get st ''is_approved'') then END else ''content_enrichment'')"
  by (simp add: next_node_def build_multi_agent_workflow_def)

lemma content_enrichment_edge:
  "next_node build_multi_agent_workflow ''content_enrichment'' st = Some ''qa''"
  by (simp add: next_node_def build_multi_agent_workflow_def)

lemma rework_loop:
  "\<forall>s \<in> set ss. \<not> truthy (dict_get s ''is_approved'') \<Longrightarrow>
   node = ''qa'' \<or> node = ''content_enrichment'' \<Longrightarrow>
   run_workflow build_multi_agent_workflow node ss \<in> {Some ''qa'', Some ''content_enrichment''}"
proof (induction ss arbitrary: node)
  case Nil
  then show ?case by auto
next
  case (Cons s ss)
  from Cons.prems(1) have rej: "\<not> truthy (dict_get s ''is_approved'')"
    and rest: "\<forall>s \<in> set ss. \<not> truthy (dict_get s ''is_approved'')" by simp_all
  from Cons.prems(2) show ?case
  proof
    assume n: "node = ''qa''"
    have "run_workflow build_multi_agent_workflow node (s # ss)
        = run_workflow build_multi_agent_workflow ''content_enrichment'' ss"
      using rej by (simp add: n qa_edge)
    with Cons.IH [OF rest, of "''content_enrichment''"] show ?thesis by simp
  next
    assume n: "node = ''content_enrichment''"
    have "run_workflow build_multi_agent_workflow node (s # ss)
        = run_workflow build_multi_agent_workflow ''qa'' ss"
      by (simp add: n content_enrichment_edge)
    with Cons.IH [OF rest, of "''qa''"] show ?thesis by simp
  qed
qed

text \<open>
  C6 (as the code has it). Whenever QA leaves a state that is not approved, the edge
  from \<open>qa\<close> leads to \<open>content_enrichment\<close>, whatever else the state holds; and a
  run in which no state is approved, however long, is still in the rework loop (at
  \<open>qa\<close> or at \<open>content_enrichment\<close>): the graph has no rework counter and no
  \<open>failed\<close> node.
\<close>

theorem qa_rejection_routes_to_enrichment:
  assumes "\<forall>s \<in> set ss. \<not> truthy (dict_get s ''is_approved'')"
  shows "(\<forall>s \<in> set ss. next_node build_multi_agent_workflow ''qa'' s = Some ''content_enrichment'')
       \<and> run_workflow build_multi_agent_workflow ''qa'' ss
           \<in> {Some ''qa'', Some ''content_enrichment''}"
proof -
  have "\<forall>s \<in> set ss. next_node build_multi_agent_workflow ''qa'' s = Some ''content_enrichment''"
    using assms by (simp add: qa_edge)
  moreover have "run_workflow build_multi_agent_workflow ''qa'' ss
      \<in> {Some ''qa'', Some ''content_enrichment''}"
    using assms by (rule rework_loop) simp
  ultimately show ?thesis by blast
qed

theorem qa_rejection_routes_to_enrichment_witness:
  "list_all (\<lambda>s. \<not> truthy (dict_get s ''is_approved''))
     [[''is_approved'' \<mapsto> PBool False, ''rework_attempts'' \<mapsto> PInt 1],
      [''is_approved'' \<mapsto> PBool False, ''rework_attempts'' \<mapsto> PInt 2],
      [''rework_attempts'' \<mapsto> PInt 3],
      [''is_approved'' \<mapsto> PBool False, ''rework_attempts'' \<mapsto> PInt 4]]
   \<and> next_node build_multi_agent_workflow ''qa''
        [''is_approved'' \<mapsto> PBool False, ''rework_attempts'' \<mapsto> PInt 4]
       = Some ''content_enrichment''
   \<and> run_workflow build_multi_agent_workflow ''qa''
        [[''is_approved'' \<mapsto> PBool False, ''rework_attempts'' \<mapsto> PInt 1],
         [''is_approved'' \<mapsto> PBool False, ''rework_attempts'' \<mapsto> PInt 2],
         [''rework_attempts'' \<mapsto> PInt 3],
         [''is_approved'' \<mapsto> PBool False, ''rework_attempts'' \<mapsto> PInt 4]]
       \<in> {Some ''qa'', Some ''content_enrichment''}"
  using qa_rejection_routes_to_enrichment
    [of "[[''is_approved'' \<mapsto> PBool False, ''rework_attempts'' \<mapsto> PInt 1],
          [''is_approved'' \<mapsto> PBool False, ''rework_attempts'' \<mapsto> PInt 2],
          [''rework_attempts'' \<mapsto> PInt 3],
          [''is_approved'' \<mapsto> PBool False, ''rework_attempts'' \<mapsto> PInt 4]]"]
  by (simp add: dict_get_def qa_edge content_enrichment_edge)

text \<open>
  C6 (as stated) fails in its second half: with QA rejecting and a rework count equal
  to the budget of 2 in the state, the edge from \<open>qa\<close> still leads to
  \<open>content_enrichment\<close>, not to a failed state.
\<close>

theorem qa_rework_budget_counterexample:
  "\<not> truthy (dict_get [''is_approved'' \<mapsto> PBool False, ''rework_attempts'' \<mapsto> PInt 2,
                        ''max_rework_attempts'' \<mapsto> PInt 2] ''is_approved'')
   \<and> next_node build_multi_agent_workflow ''qa''
        [''is_approved'' \<mapsto> PBool False, ''rework_attempts'' \<mapsto> PInt 2,
         ''max_rework_attempts'' \<mapsto> PInt 2]
       = Some ''content_enrichment''
   \<and> next_node build_multi_agent_workflow ''qa''
        [''is_approved'' \<mapsto> PBool False, ''rework_attempts'' \<mapsto> PInt 2,
         ''max_rework_attempts'' \<mapsto> PInt 2]
       \<noteq> Some ''failed''"
  by (simp add: qa_edge dict_get_def)

section \<open>The retry loop of image generation\<close>

lemma generate_loop_exhausted:
  "max_attempts \<le> attempt \<Longrightarrow>
   generate_loop api sp max_attempts attempt p = (Inr (NotGenerated ''Max retries exceeded''), [])"
  by (simp add: generate_loop.simps)

lemma generate_loop_response:
  "attempt < max_attempts \<Longrightarrow> api attempt p = ImageResponse u r \<Longrightarrow>
   generate_loop api sp max_attempts attempt p
     = (Inr (Generated u r (attempt + 1)), [ApiCall attempt p])"
  by (simp add: generate_loop.simps)

lemma generate_loop_content_policy:
  "attempt < max_attempts \<Longrightarrow> api attempt p = BadRequestError e \<Longrightarrow>
   contains (lower e) ''content_policy'' \<Longrightarrow>
   generate_loop api sp max_attempts attempt p
     = after [ApiCall attempt p] (generate_loop api sp max_attempts (attempt + 1) (sp p))"
  by (simp add: generate_loop.simps)

lemma generate_loop_bad_request:
  "attempt < max_attempts \<Longrightarrow> api attempt p = BadRequestError e \<Longrightarrow>
   \<not> contains (lower e) ''content_policy'' \<Longrightarrow>
   generate_loop api sp max_attempts attempt p
     = (Inl (RaisedBadRequest e), [ApiCall attempt p])"
  by (simp add: generate_loop.simps)

lemma generate_loop_rate_limit:
  "attempt < max_attempts \<Longrightarrow> api attempt p = RateLimitError \<Longrightarrow>
   generate_loop api sp max_attempts attempt p
     = after [ApiCall attempt p, Sleep (2 ^ attempt)]
         (generate_loop api sp max_attempts (attempt + 1) p)"
  by (simp add: generate_loop.simps)

lemma generate_loop_other_last:
  "attempt + 1 = max_attempts \<Longrightarrow> api attempt p = OtherException e \<Longrightarrow>
   generate_loop api sp max_attempts attempt p
     = (Inl (RaisedOther e), [ApiCall attempt p, LogError (attempt + 1) e])"
  by (subst generate_loop.simps) auto

lemma generate_loop_other_retry:
  "attempt + 1 < max_attempts \<Longrightarrow> api attempt p = OtherException e \<Longrightarrow>
   generate_loop api sp max_attempts attempt p
     = after [ApiCall attempt p, LogError (attempt + 1) e]
         (generate_loop api sp max_attempts (attempt + 1) p)"
  by (subst generate_loop.simps) auto

lemma api_calls_after [simp]:
  "api_calls (snd (after evs r)) = api_calls evs @ api_calls (snd r)"
  by (induction evs rule: api_calls.induct) (simp_all add: after_def)

lemma sleeps_after [simp]:
  "sleeps (snd (after evs r)) = sleeps evs @ sleeps (snd r)"
  by (induction evs rule: sleeps.induct) (simp_all add: after_def)

lemma logged_after [simp]:
  "logged_failures (snd (after evs r)) = logged_failures evs @ logged_failures (snd r)"
  by (induction evs rule: logged_failures.induct) (simp_all add: after_def)

lemma fst_after [simp]: "fst (after evs r) = fst r"
  by (simp add: after_def)

lemma generate_loop_trace:
  "length (api_calls (snd (generate_loop api sp max_attempts attempt p))) \<le> max_attempts - attempt
   \<and> (\<forall>i < length (api_calls (snd (generate_loop api sp max_attempts attempt p))).
         fst (api_calls (snd (generate_loop api sp max_attempts attempt p)) ! i) = attempt + i)
   \<and> sleeps (snd (generate_loop api sp max_attempts attempt p))
       = map (\<lambda>c. 2 ^ fst c)
           (filter (\<lambda>c. api (fst c) (snd c) = RateLimitError)
              (api_calls (snd (generate_loop api sp max_attempts attempt p))))"
proof (induction api sp max_attempts attempt p rule: generate_loop.induct)
  case (1 api sp max_attempts attempt p)
  show ?case
  proof (cases "max_attempts \<le> attempt")
    case True
    then show ?thesis by (simp add: generate_loop_exhausted)
  next
    case False
    then have lt: "attempt < max_attempts" by simp
    show ?thesis
    proof (cases "api attempt p")
      case (ImageResponse u r)
      with lt show ?thesis by (simp add: generate_loop_response)
    next
      case (BadRequestError e)
      show ?thesis
      proof (cases "contains (lower e) ''content_policy''")
        case True
        have eq: "generate_loop api sp max_attempts attempt p
            = after [ApiCall attempt p] (generate_loop api sp max_attempts (attempt + 1) (sp p))"
          using lt BadRequestError True by (rule generate_loop_content_policy)
        from "1.IH"(1) [OF False BadRequestError True] lt BadRequestError show ?thesis
          by (auto simp add: eq nth_Cons split: nat.splits)
      next
        case no: False
        with lt BadRequestError show ?thesis
          by (simp add: generate_loop_bad_request)
      qed
    next
      case RateLimitError
      have eq: "generate_loop api sp max_attempts attempt p
          = after [ApiCall attempt p, Sleep (2 ^ attempt)]
              (generate_loop api sp max_attempts (attempt + 1) p)"
        using lt RateLimitError by (rule generate_loop_rate_limit)
      from "1.IH"(2) [OF False RateLimitError] lt RateLimitError show ?thesis
        by (auto simp add: eq nth_Cons split: nat.splits)
    next
      case (OtherException e)
      show ?thesis
      proof (cases "attempt = max_attempts - 1")
        case True
        with lt have "attempt + 1 = max_attempts" by simp
        then have "generate_loop api sp max_attempts attempt p
            = (Inl (RaisedOther e), [ApiCall attempt p, LogError (attempt + 1) e])"
          using OtherException by (rule generate_loop_other_last)
        with lt OtherException show ?thesis by simp
      next
        case ne: False
        with lt have "attempt + 1 < max_attempts" by simp
        then have eq: "generate_loop api sp max_attempts attempt p
            = after [ApiCall attempt p, LogError (attempt + 1) e]
                (generate_loop api sp max_attempts (attempt + 1) p)"
          using OtherException by (rule generate_loop_other_retry)
        from "1.IH"(3) [OF False OtherException ne] lt OtherException
        show ?thesis by (auto simp add: eq nth_Cons split: nat.splits)
      qed
    qed
  qed
qed

lemma failed_calls_no_success:
  "\<forall>c \<in> set (api_calls (snd (generate_loop api sp max_attempts attempt p))).
      \<forall>u r. api (fst c) (snd c) \<noteq> ImageResponse u r \<Longrightarrow>
   fst (generate_loop api sp max_attempts attempt p) = Inr (NotGenerated ''Max retries exceeded'')
   \<or> (\<exists>x. fst (generate_loop api sp max_attempts attempt p) = Inl x)"
proof (induction api sp max_attempts attempt p rule: generate_loop.induct)
  case (1 api sp max_attempts attempt p)
  show ?case
  proof (cases "max_attempts \<le> attempt")
    case True
    then show ?thesis by (simp add: generate_loop_exhausted)
  next
    case False
    then have lt: "attempt < max_attempts" by simp
    show ?thesis
    proof (cases "api attempt p")
      case (ImageResponse u r)
      with lt have "generate_loop api sp max_attempts attempt p
          = (Inr (Generated u r (attempt + 1)), [ApiCall attempt p])"
        by (rule generate_loop_response)
      with "1.prems" ImageResponse show ?thesis by simp
    next
      case (BadRequestError e)
      show ?thesis
      proof (cases "contains (lower e) ''content_policy''")
        case True
        have eq: "generate_loop api sp max_attempts attempt p
            = after [ApiCall attempt p] (generate_loop api sp max_attempts (attempt + 1) (sp p))"
          using lt BadRequestError True by (rule generate_loop_content_policy)
        from "1.prems" have
          "\<forall>c \<in> set (api_calls (snd (generate_loop api sp max_attempts (attempt + 1) (sp p)))).
             \<forall>u r. api (fst c) (snd c) \<noteq> ImageResponse u r"
          by (simp add: eq)
        from "1.IH"(1) [OF False BadRequestError True this] show ?thesis
          by (simp add: eq)
      next
        case no: False
        with lt BadRequestError show ?thesis
          by (simp add: generate_loop_bad_request)
      qed
    next
      case RateLimitError
      have eq: "generate_loop api sp max_attempts attempt p
          = after [ApiCall attempt p, Sleep (2 ^ attempt)]
              (generate_loop api sp max_attempts (attempt + 1) p)"
        using lt RateLimitError by (rule generate_loop_rate_limit)
      from "1.prems" have
        "\<forall>c \<in> set (api_calls (snd (generate_loop api sp max_attempts (attempt + 1) p))).
           \<forall>u r. api (fst c) (snd c) \<noteq> ImageResponse u r"
        by (simp add: eq)
      from "1.IH"(2) [OF False RateLimitError this] show ?thesis
        by (simp add: eq)
    next
      case (OtherException e)
      show ?thesis
      proof (cases "attempt = max_attempts - 1")
        case True
        with lt have "attempt + 1 = max_attempts" by simp
        then have "generate_loop api sp max_attempts attempt p
            = (Inl (RaisedOther e), [ApiCall attempt p, LogError (attempt + 1) e])"
          using OtherException by (rule generate_loop_other_last)
        then show ?thesis by simp
      next
        case ne: False
        with lt have "attempt + 1 < max_attempts" by simp
        then have eq: "generate_loop api sp max_attempts attempt p
            = after [ApiCall attempt p, LogError (attempt + 1) e]
                (generate_loop api sp max_attempts (attempt + 1) p)"
          using OtherException by (rule generate_loop_other_retry)
        from "1.prems" have
          "\<forall>c \<in> set (api_calls (snd (generate_loop api sp max_attempts (attempt + 1) p))).
             \<forall>u r. api (fst c) (snd c) \<noteq> ImageResponse u r"
          by (simp add: eq)
        from "1.IH"(3) [OF False OtherException ne this]
        show ?thesis by (simp add: eq)
      qed
    qed
  qed
qed

text \<open>
  C3 (as the code has it). A run calls the service at most \<open>max_attempts\<close> times, 3
  times by default. It
  sleeps exactly after the calls answered with a rate limit, for \<open>2 ^ attempt\<close>
  seconds each, and nowhere else. An attempt within the budget that is rejected for
  content policy continues at once with the next attempt and the sanitized prompt;
  one answered with a rate limit sleeps \<open>2 ^ attempt\<close> seconds and continues with
  the same prompt; one that raises any other exception is logged and continues with
  the next attempt, unless it is the last attempt of the budget, where the exception is
  raised again; a bad request that is no content-policy rejection is raised again at
  once.
\<close>

theorem generate_with_retry_policy:
  "length (api_calls (snd (generate_with_retry api sp p max_attempts))) \<le> max_attempts
   \<and> length (api_calls (snd (generate_with_retry api sp p default_max_attempts))) \<le> 3
   \<and> sleeps (snd (generate_with_retry api sp p max_attempts))
       = map (\<lambda>c. 2 ^ fst c)
           (filter (\<lambda>c. api (fst c) (snd c) = RateLimitError)
              (api_calls (snd (generate_with_retry api sp p max_attempts))))
   \<and> (k1 < max_attempts \<and> api k1 q1 = BadRequestError e1
        \<and> contains (lower e1) ''content_policy'' \<longrightarrow>
      generate_loop api sp max_attempts k1 q1
        = after [ApiCall k1 q1] (generate_loop api sp max_attempts (k1 + 1) (sp q1)))
   \<and> (k2 < max_attempts \<and> api k2 q2 = RateLimitError \<longrightarrow>
      generate_loop api sp max_attempts k2 q2
        = after [ApiCall k2 q2, Sleep (2 ^ k2)] (generate_loop api sp max_attempts (k2 + 1) q2))
   \<and> (k3 + 1 < max_attempts \<and> api k3 q3 = OtherException e3 \<longrightarrow>
      generate_loop api sp max_attempts k3 q3
        = after [ApiCall k3 q3, LogError (k3 + 1) e3]
            (generate_loop api sp max_attempts (k3 + 1) q3))
   \<and> (k4 + 1 = max_attempts \<and> api k4 q4 = OtherException e4 \<longrightarrow>
      generate_loop api sp max_attempts k4 q4
        = (Inl (RaisedOther e4), [ApiCall k4 q4, LogError (k4 + 1) e4]))
   \<and> (k5 < max_attempts \<and> api k5 q5 = BadRequestError e5
        \<and> \<not> contains (lower e5) ''content_policy'' \<longrightarrow>
      generate_loop api sp max_attempts k5 q5 = (Inl (RaisedBadRequest e5), [ApiCall k5 q5]))"
proof -
  have bound: "length (api_calls (snd (generate_with_retry api sp p max_attempts))) \<le> max_attempts"
    using generate_loop_trace [of api sp max_attempts 0 p]
    by (simp add: generate_with_retry_def)
  have backoff: "sleeps (snd (generate_with_retry api sp p max_attempts))
       = map (\<lambda>c. 2 ^ fst c)
           (filter (\<lambda>c. api (fst c) (snd c) = RateLimitError)
              (api_calls (snd (generate_with_retry api sp p max_attempts))))"
    using generate_loop_trace [of api sp max_attempts 0 p]
    by (simp add: generate_with_retry_def)
  have c1: "k1 < max_attempts \<and> api k1 q1 = BadRequestError e1
        \<and> contains (lower e1) ''content_policy'' \<longrightarrow>
      generate_loop api sp max_attempts k1 q1
        = after [ApiCall k1 q1] (generate_loop api sp max_attempts (k1 + 1) (sp q1))"
    by (simp add: generate_loop_content_policy)
  have c2: "k2 < max_attempts \<and> api k2 q2 = RateLimitError \<longrightarrow>
      generate_loop api sp max_attempts k2 q2
        = after [ApiCall k2 q2, Sleep (2 ^ k2)] (generate_loop api sp max_attempts (k2 + 1) q2)"
    by (simp add: generate_loop_rate_limit)
  have c3: "k3 + 1 < max_attempts \<and> api k3 q3 = OtherException e3 \<longrightarrow>
      generate_loop api sp max_attempts k3 q3
        = after [ApiCall k3 q3, LogError (k3 + 1) e3]
            (generate_loop api sp max_attempts (k3 + 1) q3)"
    using generate_loop_other_retry [of k3 max_attempts api q3 e3 sp] by simp
  have c4: "k4 + 1 = max_attempts \<and> api k4 q4 = OtherException e4 \<longrightarrow>
      generate_loop api sp max_attempts k4 q4
        = (Inl (RaisedOther e4), [ApiCall k4 q4, LogError (k4 + 1) e4])"
    using generate_loop_other_last [of k4 max_attempts api q4 e4 sp] by simp
  have c5: "k5 < max_attempts \<and> api k5 q5 = BadRequestError e5
        \<and> \<not> contains (lower e5) ''content_policy'' \<longrightarrow>
      generate_loop api sp max_attempts k5 q5 = (Inl (RaisedBadRequest e5), [ApiCall k5 q5])"
    by (simp add: generate_loop_bad_request)
  have dflt: "length (api_calls (snd (generate_with_retry api sp p default_max_attempts))) \<le> 3"
    using generate_loop_trace [of api sp 3 0 p]
    by (simp add: generate_with_retry_def default_max_attempts_def)
  from bound dflt backoff c1 c2 c3 c4 c5 show ?thesis by blast
qed

lemma policy_message: "contains (lower ''Content_Policy violation'') ''content_policy''"
  by (simp add: lower_def lower_char_def startswith_def)

lemma other_message: "\<not> contains (lower ''invalid size'') ''content_policy''"
  by (simp add: lower_def lower_char_def startswith_def)

lemmas run_simps = generate_with_retry_def generate_loop.simps after_def

theorem generate_with_retry_policy_witness:
  "mixed_service 0 ''a cat'' = BadRequestError ''Content_Policy violation''
   \<and> contains (lower ''Content_Policy violation'') ''content_policy''
   \<and> mixed_service 1 ''safe a cat'' = RateLimitError
   \<and> mixed_service 2 ''safe a cat'' = OtherException ''connection reset''
   \<and> mixed_service 4 ''safe a cat'' = OtherException ''service unavailable''
   \<and> mixed_service 3 ''safe a cat'' = BadRequestError ''invalid size''
   \<and> \<not> contains (lower ''invalid size'') ''content_policy''
   \<and> length (api_calls (snd (generate_with_retry mixed_service (\<lambda>q. ''safe '' @ q) ''a cat'' 5))) \<le> 5
   \<and> length (api_calls (snd (generate_with_retry mixed_service (\<lambda>q. ''safe '' @ q) ''a cat''
         default_max_attempts))) \<le> 3
   \<and> sleeps (snd (generate_with_retry mixed_service (\<lambda>q. ''safe '' @ q) ''a cat'' 5)) = [2]
   \<and> generate_loop mixed_service (\<lambda>q. ''safe '' @ q) 5 0 ''a cat''
       = after [ApiCall 0 ''a cat'']
           (generate_loop mixed_service (\<lambda>q. ''safe '' @ q) 5 1 ''safe a cat'')
   \<and> generate_loop mixed_service (\<lambda>q. ''safe '' @ q) 5 1 ''safe a cat''
       = after [ApiCall 1 ''safe a cat'', Sleep 2]
           (generate_loop mixed_service (\<lambda>q. ''safe '' @ q) 5 2 ''safe a cat'')
   \<and> generate_loop mixed_service (\<lambda>q. ''safe '' @ q) 5 2 ''safe a cat''
       = after [ApiCall 2 ''safe a cat'', LogError 3 ''connection reset'']
           (generate_loop mixed_service (\<lambda>q. ''safe '' @ q) 5 3 ''safe a cat'')
   \<and> generate_loop mixed_service (\<lambda>q. ''safe '' @ q) 5 4 ''safe a cat''
       = (Inl (RaisedOther ''service unavailable''),
          [ApiCall 4 ''safe a cat'', LogError 5 ''service unavailable''])
   \<and> generate_loop mixed_service (\<lambda>q. ''safe '' @ q) 5 3 ''safe a cat''
       = (Inl (RaisedBadRequest ''invalid size''), [ApiCall 3 ''safe a cat''])"
  using generate_with_retry_policy [of mixed_service "\<lambda>q. ''safe '' @ q" "''a cat''" 5
          0 "''a cat''" "''Content_Policy violation''"
          1 "''safe a cat''"
          2 "''safe a cat''" "''connection reset''"
          4 "''safe a cat''" "''service unavailable''"
          3 "''safe a cat''" "''invalid size''"]
  by (simp add: mixed_service_def policy_message other_message run_simps
        default_max_attempts_def)

text \<open>
  C3 (as stated) fails in its last part: with a budget of 3, a service that raises
  another error on the first attempt and again on the retry is tried a third time, and
  the run succeeds; the second failure is not fatal.
\<close>

theorem other_error_retried_twice_counterexample:
  "other_error_twice 0 ''a cat'' = OtherException ''connection reset''
   \<and> other_error_twice 1 ''a cat'' = OtherException ''connection reset''
   \<and> generate_with_retry other_error_twice (\<lambda>q. q) ''a cat'' 3
       = (Inr (Generated ''https://img.example/1.png'' ''a cat'' 3),
          [ApiCall 0 ''a cat'', LogError 1 ''connection reset'',
           ApiCall 1 ''a cat'', LogError 2 ''connection reset'',
           ApiCall 2 ''a cat''])"
  by (simp add: other_error_twice_def run_simps)

text \<open>
  C4 (as the code has it). With a budget of 3, a run answered with a rate limit on the
  first two attempts and with an image on the third returns success with
  \<open>attempts = 3\<close>, after sleeping 1 and 2 seconds, and records no failure reason; and
  a run of which every call made failed does not return success: it returns the
  failure dictionary "Max retries exceeded" or an exception escapes.
\<close>

theorem rate_limited_twice_then_generated:
  "(api 0 p = RateLimitError \<and> api 1 p = RateLimitError \<and> api 2 p = ImageResponse u r \<longrightarrow>
      generate_with_retry api sp p 3
        = (Inr (Generated u r 3),
           [ApiCall 0 p, Sleep 1, ApiCall 1 p, Sleep 2, ApiCall 2 p])
      \<and> logged_failures (snd (generate_with_retry api sp p 3)) = [])
   \<and> ((\<forall>c \<in> set (api_calls (snd (generate_with_retry api' sp p 3))).
          \<forall>u r. api' (fst c) (snd c) \<noteq> ImageResponse u r) \<longrightarrow>
      fst (generate_with_retry api' sp p 3) = Inr (NotGenerated ''Max retries exceeded'')
      \<or> (\<exists>x. fst (generate_with_retry api' sp p 3) = Inl x))"
proof -
  have a: "api 0 p = RateLimitError \<and> api 1 p = RateLimitError \<and> api 2 p = ImageResponse u r \<longrightarrow>
      generate_with_retry api sp p 3
        = (Inr (Generated u r 3),
           [ApiCall 0 p, Sleep 1, ApiCall 1 p, Sleep 2, ApiCall 2 p])
      \<and> logged_failures (snd (generate_with_retry api sp p 3)) = []"
  proof
    assume h: "api 0 p = RateLimitError \<and> api 1 p = RateLimitError \<and> api 2 p = ImageResponse u r"
    have s2: "generate_loop api sp 3 2 p = (Inr (Generated u r 3), [ApiCall 2 p])"
      using h generate_loop_response [of 2 3 api p u r sp] by simp
    have s1: "generate_loop api sp 3 1 p
        = after [ApiCall 1 p, Sleep 2] (generate_loop api sp 3 2 p)"
      using h generate_loop_rate_limit [of 1 3 api p sp] by (simp add: numeral_2_eq_2)
    have s0: "generate_loop api sp 3 0 p
        = after [ApiCall 0 p, Sleep 1] (generate_loop api sp 3 1 p)"
      using h generate_loop_rate_limit [of 0 3 api p sp] by simp
    have run: "generate_with_retry api sp p 3
        = (Inr (Generated u r 3), [ApiCall 0 p, Sleep 1, ApiCall 1 p, Sleep 2, ApiCall 2 p])"
      by (simp only: generate_with_retry_def s0 s1 s2 after_def fst_conv snd_conv append.simps)
    then show "generate_with_retry api sp p 3
        = (Inr (Generated u r 3),
           [ApiCall 0 p, Sleep 1, ApiCall 1 p, Sleep 2, ApiCall 2 p])
      \<and> logged_failures (snd (generate_with_retry api sp p 3)) = []"
      by simp
  qed
  have b: "(\<forall>c \<in> set (api_calls (snd (generate_with_retry api' sp p 3))).
          \<forall>u r. api' (fst c) (snd c) \<noteq> ImageResponse u r) \<longrightarrow>
      fst (generate_with_retry api' sp p 3) = Inr (NotGenerated ''Max retries exceeded'')
      \<or> (\<exists>x. fst (generate_with_retry api' sp p 3) = Inl x)"
    using failed_calls_no_success [of api' sp 3 0 p]
    by (simp add: generate_with_retry_def)
  from a b show ?thesis by blast
qed

theorem rate_limited_twice_then_generated_witness:
  "rate_limited_twice 0 ''a cat'' = RateLimitError
   \<and> rate_limited_twice 1 ''a cat'' = RateLimitError
   \<and> rate_limited_twice 2 ''a cat'' = ImageResponse ''https://img.example/1.png'' ''a cat''
   \<and> generate_with_retry rate_limited_twice (\<lambda>q. q) ''a cat'' 3
       = (Inr (Generated ''https://img.example/1.png'' ''a cat'' 3),
          [ApiCall 0 ''a cat'', Sleep 1, ApiCall 1 ''a cat'', Sleep 2, ApiCall 2 ''a cat''])
   \<and> api_calls (snd (generate_with_retry always_rate_limited (\<lambda>q. q) ''a cat'' 3))
       = [(0, ''a cat''), (1, ''a cat''), (2, ''a cat'')]
   \<and> fst (generate_with_retry always_rate_limited (\<lambda>q. q) ''a cat'' 3)
       = Inr (NotGenerated ''Max retries exceeded'')"
  using rate_limited_twice_then_generated [of rate_limited_twice "''a cat''"
          "''https://img.example/1.png''" "''a cat''" "\<lambda>q. q" always_rate_limited]
  by (simp add: rate_limited_twice_def always_rate_limited_def run_simps)

text \<open>
  C4 (as stated) fails in the recorded reasons: the run with two rate limits and a
  success returns url, revised prompt and \<open>attempts = 3\<close>, and nothing records the two
  failures: the rate-limit handler logs nothing and the returned dictionary has no
  field for reasons.
\<close>

theorem rate_limit_reasons_counterexample:
  "generate_with_retry rate_limited_twice (\<lambda>q. q) ''a cat'' 3
     = (Inr (Generated ''https://img.example/1.png'' ''a cat'' 3),
        [ApiCall 0 ''a cat'', Sleep 1, ApiCall 1 ''a cat'', Sleep 2, ApiCall 2 ''a cat''])
   \<and> logged_failures (snd (generate_with_retry rate_limited_twice (\<lambda>q. q) ''a cat'' 3)) = []
   \<and> length (logged_failures (snd (generate_with_retry rate_limited_twice (\<lambda>q. q) ''a cat'' 3)))
       \<noteq> 2"
  by (simp add: rate_limited_twice_def run_simps)

section \<open>Recommendation: the match score and the selected three\<close>

lemma score_destinations_length [simp]:
  "length (score_destinations env vp ds) = length ds"
  by (induction ds) (simp_all add: Let_def)

lemma score_destinations_nth:
  "i < length ds \<Longrightarrow>
   score_destinations env vp ds ! i
     = destination.extend (ds ! i)
         (scored_destination.fields
            (calculate_vibe_match env (ds ! i) vp * 0.7
               + real_of_int (photography_score (ds ! i)) / 10 * 0.3)
            (generate_match_reason env (ds ! i) vp))"
proof (induction ds arbitrary: i)
  case Nil
  then show ?case by simp
next
  case (Cons d ds)
  then show ?case by (cases i) (simp_all add: Let_def)
qed

lemma truncate_extend:
  "destination.truncate (destination.extend d (scored_destination.fields m r)) = d"
  by (simp add: destination.defs scored_destination.defs)

lemma match_score_extend:
  "match_score (destination.extend d (scored_destination.fields m r)) = m"
  by (simp add: destination.defs scored_destination.defs)


text \<open>
  C7. For every destination that survived the compatibility filter (the one at any
  index \<open>i\<close> of \<open>compatible_dests\<close>), the scoring loop produces one record, at the
  same index, that extends this destination and whose match score is 0.7 times its
  vibe match plus 0.3 times its photography score divided by 10.
\<close>

theorem match_score_formula:
  assumes "i < length compatible_dests"
  shows "length (score_destinations env vibe_profile compatible_dests) = length compatible_dests
       \<and> destination.truncate (score_destinations env vibe_profile compatible_dests ! i)
           = compatible_dests ! i
       \<and> match_score (score_destinations env vibe_profile compatible_dests ! i)
           = 0.7 * calculate_vibe_match env (compatible_dests ! i) vibe_profile
             + 0.3 * (real_of_int (photography_score (compatible_dests ! i)) / 10)"
  using assms by (simp add: score_destinations_nth truncate_extend match_score_extend)

theorem match_score_formula_witness:
  "(2::nat) < length demo_pool
   \<and> length (score_destinations demo_env demo_profile demo_pool) = length demo_pool
   \<and> destination.truncate (score_destinations demo_env demo_profile demo_pool ! 2)
       = \<lparr> dest_id = ''lisbon'', locality = ''Lisbon'', country = ''Portugal'',
           photography_score = 10 \<rparr>
   \<and> match_score (score_destinations demo_env demo_profile demo_pool ! 2) = 93 / 100"
  using match_score_formula [of 2 demo_pool demo_env demo_profile]
  by (simp add: demo_pool_def demo_env_def)













section \<open>Validation of the generated image\<close>

lemma validate_image_quality_iff:
  "fst (validate_image_quality fetch_size u)
     \<longleftrightarrow> startswith u ''https://''
          \<and> (\<exists>w h. fetch_size u = Inr (w, h) \<and> 1024 \<le> min w h)"
  by (auto simp: validate_image_quality_def startswith_def split: sum.splits)

lemma validated_generation_accepts:
  "validated_generation fetch_size asset n k = Some (a, used) \<Longrightarrow>
   fst (validate_image_quality fetch_size a) \<and> k < used \<and> used \<le> k + n \<and> a = asset (used - 1)"
proof (induction n arbitrary: k)
  case 0
  then show ?case by simp
next
  case (Suc n)
  show ?case
  proof (cases "fst (validate_image_quality fetch_size (asset k))")
    case True
    with Suc.prems show ?thesis by auto
  next
    case False
    with Suc.prems have "validated_generation fetch_size asset n (k + 1) = Some (a, used)"
      by simp
    from Suc.IH [OF this] show ?thesis by auto
  qed
qed

text \<open>
  C8. \<open>validate_image_quality\<close> accepts exactly the references that start with
  \<open>https://\<close> and whose size could be fetched with a shorter edge of at least 1024. When
  the size cannot be fetched the result is \<open>False\<close>, returned and not raised; in the
  stage loop such an attempt is not accepted and the next attempt runs with the rest of
  the budget, and whatever the loop accepts passed the validation within the budget.
\<close>

theorem image_validation:
  "(fst (validate_image_quality fetch_size u)
      \<longleftrightarrow> startswith u ''https://''
           \<and> (\<exists>w h. fetch_size u = Inr (w, h) \<and> 1024 \<le> min w h))
   \<and> (fetch_size u' = Inl e \<longrightarrow> \<not> fst (validate_image_quality fetch_size u'))
   \<and> (fetch_size (asset k) = Inl e' \<longrightarrow>
        validated_generation fetch_size asset (Suc n) k
          = validated_generation fetch_size asset n (k + 1))
   \<and> (validated_generation fetch_size asset m j = Some (a, used) \<longrightarrow>
        fst (validate_image_quality fetch_size a) \<and> j < used \<and> used \<le> j + m
        \<and> a = asset (used - 1))"
proof -
  have 1: "fst (validate_image_quality fetch_size u)
      \<longleftrightarrow> startswith u ''https://''
           \<and> (\<exists>w h. fetch_size u = Inr (w, h) \<and> 1024 \<le> min w h)"
    by (rule validate_image_quality_iff)
  have 2: "fetch_size u' = Inl e \<longrightarrow> \<not> fst (validate_image_quality fetch_size u')"
    by (simp add: validate_image_quality_iff)
  have 3: "fetch_size (asset k) = Inl e' \<longrightarrow>
        validated_generation fetch_size asset (Suc n) k
          = validated_generation fetch_size asset n (k + 1)"
    by (simp add: validate_image_quality_iff)
  have 4: "validated_generation fetch_size asset m j = Some (a, used) \<longrightarrow>
        fst (validate_image_quality fetch_size a) \<and> j < used \<and> used \<le> j + m
        \<and> a = asset (used - 1)"
    using validated_generation_accepts [of fetch_size asset m j a used] by blast
  from 1 2 3 4 show ?thesis by blast
qed

theorem image_validation_witness:
  "fst (validate_image_quality demo_fetch ''https://img.example/2.png'')
   \<and> startswith ''https://img.example/2.png'' ''https://''
   \<and> demo_fetch ''https://img.example/2.png'' = Inr (1024, 1792)
   \<and> demo_fetch ''https://img.example/0.png'' = Inl ''connection timed out''
   \<and> \<not> fst (validate_image_quality demo_fetch ''https://img.example/0.png'')
   \<and> demo_fetch (demo_asset 0) = Inl ''connection timed out''
   \<and> validated_generation demo_fetch demo_asset 3 0 = validated_generation demo_fetch demo_asset 2 1
   \<and> validated_generation demo_fetch demo_asset 3 0 = Some (''https://img.example/2.png'', 3)"
  using image_validation [of demo_fetch "''https://img.example/2.png''"
          "''https://img.example/0.png''" "''connection timed out''"
          demo_asset 0 "''connection timed out''" 2
          3 0 "''https://img.example/2.png''" 3]
  by (simp add: demo_fetch_def demo_asset_def validate_image_quality_def startswith_def
        numeral_3_eq_3)

section \<open>Content enrichment: defaults of the lookups\<close>

lemma camera_keys: "concept \<notin> {''flaneur'', ''filmlog'', ''midnight''} \<Longrightarrow> CAMERA_DATABASE concept = None"
  by (simp add: CAMERA_DATABASE_def)

lemma palette_keys: "concept \<notin> {''flaneur'', ''filmlog'', ''midnight''} \<Longrightarrow> base_palettes concept = None"
  by (simp add: base_palettes_def)

lemma props_keys: "concept \<notin> {''flaneur'', ''filmlog'', ''midnight''} \<Longrightarrow> PROPS_DATABASE concept = None"
  by (simp add: PROPS_DATABASE_def)

lemma season_keys: "season \<notin> {''spring'', ''summer'', ''fall'', ''winter''} \<Longrightarrow> seasonal_modifiers season = None"
  by (simp add: seasonal_modifiers_def)

lemma camera_filmlog:
  "CAMERA_DATABASE ''filmlog'' = Some \<lparr> primary = ''Canon AE-1'',
           alternative = [''Nikon FM2'', ''Pentax K1000''],
           reasoning = ''Reliable SLRs with manual controls for vintage aesthetic'' \<rparr>"
  by (simp add: CAMERA_DATABASE_def)

lemma palette_filmlog:
  "base_palettes ''filmlog'' = Some [''#F5E6D3'', ''#8B7355'', ''#A0826D'', ''#FFFFFF'']"
  by (simp add: base_palettes_def)

lemma season_spring:
  "seasonal_modifiers ''spring'' = Some \<lparr> add_colors = [''pastel pink'', ''light green''],
                     fabrics = [''cotton'', ''linen''] \<rparr>"
  by (simp add: seasonal_modifiers_def)

lemma props_filmlog:
  "PROPS_DATABASE ''filmlog'' = Some
         [new_prop ''Vintage Polaroid camera'' ''Nostalgic layering'',
          new_prop ''Film photography book'' ''Artistic context'',
          new_prop ''Woven basket'' ''Vintage travel charm'']"
  by (simp add: PROPS_DATABASE_def)

lemma camera_fallback:
  assumes "concept \<notin> {''flaneur'', ''filmlog'', ''midnight''}"
  shows "recommend_camera env concept budget = recommend_camera env ''filmlog'' budget"
    and "recommend_camera env concept budget =
      Inr [(''model'', PStr ''Canon AE-1''),
           (''alternatives'', strs [''Nikon FM2'', ''Pentax K1000'']),
           (''reasoning'', PStr ''Reliable SLRs with manual controls for vintage aesthetic''),
           (''rental_info'', get_rental_info env ''Canon AE-1''),
           (''buy_links'', get_purchase_links env ''Canon AE-1'')]"
  using camera_keys [OF assms]
  by (simp_all add: recommend_camera_def index_def get_default_def camera_filmlog)

lemma palette_fallback:
  assumes "concept \<notin> {''flaneur'', ''filmlog'', ''midnight''}"
  shows "\<exists>r. generate_outfit_suggestions env concept season weather prefs = Inr r
          \<and> map_of r ''color_palette''
              = Some (strs [''#F5E6D3'', ''#8B7355'', ''#A0826D'', ''#FFFFFF''])"
  using palette_keys [OF assms]
  by (simp add: generate_outfit_suggestions_def index_def get_default_def palette_filmlog
        season_spring Let_def)

lemma season_fallback:
  assumes "season \<notin> {''spring'', ''summer'', ''fall'', ''winter''}"
  shows "\<exists>r. generate_outfit_suggestions env concept season weather prefs = Inr r
          \<and> map_of r ''seasonal_additions'' = Some (strs [''pastel pink'', ''light green''])
          \<and> map_of r ''recommended_fabrics'' = Some (strs [''cotton'', ''linen''])"
  using season_keys [OF assms]
  by (simp add: generate_outfit_suggestions_def index_def get_default_def palette_filmlog
        season_spring Let_def)

lemma map_slice: "map f (slice_to xs c) = slice_to (map f xs) c"
  by (simp add: slice_to_def take_map)

lemma props_fallback:
  assumes "concept \<notin> {''flaneur'', ''filmlog'', ''midnight''}"
  shows "\<exists>selected db. recommend_props env PROPS_DATABASE concept location_type count
            = Inr (selected, db)
          \<and> map (\<lambda>p. (name p, purpose p)) selected
              = slice_to
                  ([(''Vintage Polaroid camera'', ''Nostalgic layering''),
                    (''Film photography book'', ''Artistic context''),
                    (''Woven basket'', ''Vintage travel charm'')]
                   @ (if location_type = ''coastal''
                      then [(''Seashell collection jar'', ''Coastal memory keeper'')]
                      else if location_type = ''urban''
                      then [(''Vintage metro ticket'', ''Urban exploration token'')]
                      else []))
                  count"
  using props_keys [OF assms]
  by (simp add: recommend_props_def index_def get_default_def props_filmlog Let_def
        comp_def new_prop_def map_slice)


text \<open>
  C9. For every concept that is none of flaneur, filmlog and midnight, nothing is
  raised and the lookups give the filmlog entries: \<open>recommend_camera\<close> returns what
  it returns for filmlog (the Canon AE-1), \<open>generate_outfit_suggestions\<close> returns the
  filmlog palette, and \<open>recommend_props\<close>, on the database as defined, returns the
  filmlog props (followed by the prop of the location type, cut to \<open>count\<close>). For every
  season that is none of spring, summer, fall and winter the seasonal additions and the
  fabrics are those of spring.
\<close>

theorem enrichment_lookups_fall_back:
  "(concept \<notin> {''flaneur'', ''filmlog'', ''midnight''} \<longrightarrow>
      recommend_camera env concept budget = recommend_camera env ''filmlog'' budget
      \<and> recommend_camera env concept budget =
          Inr [(''model'', PStr ''Canon AE-1''),
               (''alternatives'', strs [''Nikon FM2'', ''Pentax K1000'']),
               (''reasoning'', PStr ''Reliable SLRs with manual controls for vintage aesthetic''),
               (''rental_info'', get_rental_info env ''Canon AE-1''),
               (''buy_links'', get_purchase_links env ''Canon AE-1'')]
      \<and> (\<exists>r. generate_outfit_suggestions env concept season weather prefs = Inr r
            \<and> map_of r ''color_palette''
                = Some (strs [''#F5E6D3'', ''#8B7355'', ''#A0826D'', ''#FFFFFF'']))
      \<and> (\<exists>selected db. recommend_props env PROPS_DATABASE concept location_type count
              = Inr (selected, db)
            \<and> map (\<lambda>p. (name p, purpose p)) selected
                = slice_to
                    ([(''Vintage Polaroid camera'', ''Nostalgic layering''),
                      (''Film photography book'', ''Artistic context''),
                      (''Woven basket'', ''Vintage travel charm'')]
                     @ (if location_type = ''coastal''
                        then [(''Seashell collection jar'', ''Coastal memory keeper'')]
                        else if location_type = ''urban''
                        then [(''Vintage metro ticket'', ''Urban exploration token'')]
                        else []))
                    count))
   \<and> (season' \<notin> {''spring'', ''summer'', ''fall'', ''winter''} \<longrightarrow>
      (\<exists>r. generate_outfit_suggestions env concept' season' weather' prefs' = Inr r
          \<and> map_of r ''seasonal_additions'' = Some (strs [''pastel pink'', ''light green''])
          \<and> map_of r ''recommended_fabrics'' = Some (strs [''cotton'', ''linen''])))"
  using camera_fallback [of concept env budget]
    palette_fallback [of concept env season weather prefs]
    props_fallback [of concept env location_type count]
    season_fallback [of season' env concept' weather' prefs']
  by blast

lemma demo_rental:
  "get_rental_info demo_enrichment m = PStr (''rent '' @ m)"
  "get_purchase_links demo_enrichment m = PList [PStr (''https://shop.example/'' @ m)]"
  by (simp_all add: demo_enrichment_def)

theorem enrichment_lookups_fall_back_witness:
  "''retro'' \<notin> {''flaneur'', ''filmlog'', ''midnight''}
   \<and> recommend_camera demo_enrichment ''retro'' ''medium''
       = recommend_camera demo_enrichment ''filmlog'' ''medium''
   \<and> recommend_camera demo_enrichment ''retro'' ''medium''
       = Inr [(''model'', PStr ''Canon AE-1''),
              (''alternatives'', strs [''Nikon FM2'', ''Pentax K1000'']),
              (''reasoning'', PStr ''Reliable SLRs with manual controls for vintage aesthetic''),
              (''rental_info'', PStr ''rent Canon AE-1''),
              (''buy_links'', PList [PStr ''https://shop.example/Canon AE-1''])]
   \<and> (\<exists>r. generate_outfit_suggestions demo_enrichment ''retro'' ''monsoon'' ''rain'' None = Inr r
         \<and> map_of r ''color_palette''
             = Some (strs [''#F5E6D3'', ''#8B7355'', ''#A0826D'', ''#FFFFFF'']))
   \<and> (\<exists>selected db. recommend_props demo_enrichment PROPS_DATABASE ''retro'' ''coastal'' 3
           = Inr (selected, db)
         \<and> map (\<lambda>p. (name p, purpose p)) selected
             = [(''Vintage Polaroid camera'', ''Nostalgic layering''),
                (''Film photography book'', ''Artistic context''),
                (''Woven basket'', ''Vintage travel charm'')])
   \<and> ''monsoon'' \<notin> {''spring'', ''summer'', ''fall'', ''winter''}
   \<and> (\<exists>r. generate_outfit_suggestions demo_enrichment ''retro'' ''monsoon'' ''rain'' None = Inr r
         \<and> map_of r ''seasonal_additions'' = Some (strs [''pastel pink'', ''light green''])
         \<and> map_of r ''recommended_fabrics'' = Some (strs [''cotton'', ''linen'']))"
  using enrichment_lookups_fall_back [of "''retro''" demo_enrichment "''medium''"
          "''monsoon''" "''rain''" None "''coastal''" 3 "''monsoon''" "''retro''" "''rain''" None]
    demo_rental
  by (auto simp add: slice_to_def)

text \<open>
  \<open>recommend_props\<close> changes the database, so later calls see another filmlog list
  than the one defined. The default holds in every state: whenever the concept is no
  key and \<open>filmlog\<close> is one, the call returns the props then stored under
  \<open>filmlog\<close>, keeps the keys and changes no other entry.
\<close>

lemma recommend_props_any_state:
  assumes "db concept = None" and "db ''filmlog'' = Some ps"
  shows "\<exists>selected db'.
           recommend_props env db concept location_type count = Inr (selected, db')
         \<and> dom db' = dom db
         \<and> (\<forall>k. k \<noteq> ''filmlog'' \<longrightarrow> db' k = db k)
         \<and> map (\<lambda>p. (name p, purpose p)) selected
             = slice_to
                 (map (\<lambda>p. (name p, purpose p)) ps
                  @ (if location_type = ''coastal''
                     then [(''Seashell collection jar'', ''Coastal memory keeper'')]
                     else if location_type = ''urban''
                     then [(''Vintage metro ticket'', ''Urban exploration token'')]
                     else []))
                 count"
  using assms
  by (auto simp add: recommend_props_def index_def get_default_def Let_def comp_def
        new_prop_def map_slice)

section \<open>Quality assurance: the overall verdict\<close>

lemma validate_safety_approved:
  "approved (validate_safety moderations_create str_of_list content)
     = (\<not> flagged (moderations_create (join '' '' (str_values str_of_list content))))"
  by (simp add: validate_safety_def Let_def)

text \<open>
  C5. When the checklist of the recommendations returns a result, the overall verdict
  is the conjunction of the three checklists passing and of the moderation service not
  flagging the joined text; and when the service flags it, \<open>validate_safety\<close> does
  not approve and the overall verdict is false, whatever the checklists say.
\<close>

theorem qa_approval_is_conjunction:
  assumes "validate_recommendations destinations = Inr recommendations_result"
  shows "quality_assurance moderations_create str_of_list destinations generated_image styling content
           = Inr (passed recommendations_result
                  \<and> passed (validate_image generated_image)
                  \<and> passed (validate_styling_package styling)
                  \<and> \<not> flagged (moderations_create (join '' '' (str_values str_of_list content))))
       \<and> (flagged (moderations_create (join '' '' (str_values str_of_list content))) \<longrightarrow>
            \<not> approved (validate_safety moderations_create str_of_list content)
            \<and> quality_assurance moderations_create str_of_list destinations generated_image
                  styling content = Inr False)"
  using assms
  by (simp add: quality_assurance_def qa_approved_def validate_safety_approved)

lemma demo_recommendations_checked:
  "validate_recommendations
     [demo_destination ''lisbon'', demo_destination ''porto'', demo_destination ''kyoto'']
   = Inr (checklist_result
       [(''count'', True), (''all_have_match_reason'', True), (''photography_scores'', True),
        (''safety_ratings'', True), (''descriptions_length'', True), (''no_duplicates'', True)])"
  by (simp add: validate_recommendations_def demo_destination_def)

theorem qa_approval_is_conjunction_witness:
  "validate_recommendations
     [demo_destination ''lisbon'', demo_destination ''porto'', demo_destination ''kyoto'']
   = Inr (checklist_result
       [(''count'', True), (''all_have_match_reason'', True), (''photography_scores'', True),
        (''safety_ratings'', True), (''descriptions_length'', True), (''no_duplicates'', True)])
   \<and> passed (checklist_result
       [(''count'', True), (''all_have_match_reason'', True), (''photography_scores'', True),
        (''safety_ratings'', True), (''descriptions_length'', True), (''no_duplicates'', True)])
   \<and> passed (validate_image demo_image)
   \<and> passed (validate_styling_package demo_styling)
   \<and> flagged (demo_moderation (join '' '' (str_values (\<lambda>xs. []) demo_content)))
   \<and> \<not> approved (validate_safety demo_moderation (\<lambda>xs. []) demo_content)
   \<and> quality_assurance demo_moderation (\<lambda>xs. [])
        [demo_destination ''lisbon'', demo_destination ''porto'', demo_destination ''kyoto'']
        demo_image demo_styling demo_content
       = Inr False"
  using qa_approval_is_conjunction [OF demo_recommendations_checked, of demo_moderation
          "\<lambda>xs. []" demo_image demo_styling demo_content]
  by (simp add: demo_recommendations_checked checklist_result_def validate_image_def
        validate_styling_package_def demo_image_def demo_styling_def demo_content_def
        demo_moderation_def startswith_def dict_get_def)

section \<open>The recommendation result: count, order and the QA checks\<close>






end
